theory Spec2Isabelle
  imports Complex_Main "HOL-Library.Sublist" "HOL-Library.Multiset"
begin

section \<open>Python strings\<close>

text \<open>
  A Python \<open>str\<close> is modelled as a \<^typ>\<open>string\<close>, each \<^typ>\<open>char\<close> read as the code point
  of the same number (U+0000 to U+00FF); \<open>len\<close> is \<^const>\<open>length\<close>.
\<close>

definition is_space :: "char \<Rightarrow> bool" where
  \<comment> \<open>\<open>str.isspace\<close> on one character: U+0009..U+000D, U+001C..U+0020, U+0085, U+00A0.\<close>
  "is_space c =
     (let n = (of_char c :: nat)
      in (9 \<le> n \<and> n \<le> 13) \<or> (28 \<le> n \<and> n \<le> 32) \<or> n = 133 \<or> n = 160)"

definition lower_char :: "char \<Rightarrow> char" where
  \<comment> \<open>\<open>str.lower\<close> on one character: A..Z and U+00C0..U+00DE (without U+00D7) move up by 32.\<close>
  "lower_char c =
     (let n = (of_char c :: nat)
      in if (65 \<le> n \<and> n \<le> 90) \<or> (192 \<le> n \<and> n \<le> 222 \<and> n \<noteq> 215)
         then char_of (n + 32) else c)"

definition lower :: "string \<Rightarrow> string" where
  "lower s = map lower_char s"

definition codes :: "string \<Rightarrow> nat list" where
  \<comment> \<open>a text as the list of its code points; texts that \<open>str.upper\<close> has produced are kept
      in this form, since upper-case forms leave the range U+0000..U+00FF\<close>
  "codes s = map of_char s"

definition upper_char :: "char \<Rightarrow> nat list" where
  \<comment> \<open>\<open>str.upper\<close> on one character, as code points: U+00DF gives \<open>SS\<close>, U+00B5 gives
      U+039C, U+00FF gives U+0178; a..z and U+00E0..U+00FE (without U+00F7) move down by 32;
      every other character is left as it is.\<close>
  "upper_char c =
     (let n = (of_char c :: nat)
      in if n = 223 then [83, 83]
         else if n = 181 then [924]
         else if n = 255 then [376]
         else if (97 \<le> n \<and> n \<le> 122) \<or> (224 \<le> n \<and> n \<le> 254 \<and> n \<noteq> 247)
         then [n - 32] else [n])"

definition upper :: "string \<Rightarrow> nat list" where
  "upper s = concat (map upper_char s)"

fun startswith :: "string \<Rightarrow> string \<Rightarrow> bool" where
  \<comment> \<open>\<open>s.startswith(p)\<close>\<close>
  "startswith s [] = True"
| "startswith [] (p # ps) = False"
| "startswith (c # cs) (p # ps) = (c = p \<and> startswith cs ps)"

fun contains :: "string \<Rightarrow> string \<Rightarrow> bool" where
  \<comment> \<open>\<open>p in s\<close>: \<open>p\<close> occurs in \<open>s\<close> as a contiguous substring.\<close>
  "contains [] p = (p = [])"
| "contains (c # cs) p = (startswith (c # cs) p \<or> contains cs p)"

definition replace_char :: "char \<Rightarrow> string \<Rightarrow> string" where
  \<comment> \<open>\<open>s.replace(c, '')\<close> for a one-character \<open>c\<close>\<close>
  "replace_char c s = filter (\<lambda>x. x \<noteq> c) s"

fun split_from :: "string \<Rightarrow> string \<Rightarrow> string list" where
  \<comment> \<open>\<open>s.split()\<close>, scanning left to right with the word read so far.\<close>
  "split_from cur [] = (if cur = [] then [] else [cur])"
| "split_from cur (c # cs) =
     (if is_space c then (if cur = [] then split_from [] cs else cur # split_from [] cs)
      else split_from (cur @ [c]) cs)"

definition split :: "string \<Rightarrow> string list" where
  "split s = split_from [] s"

fun join :: "'a list \<Rightarrow> 'a list list \<Rightarrow> 'a list" where
  \<comment> \<open>\<open>sep.join(xs)\<close>\<close>
  "join sep [] = []"
| "join sep [x] = x"
| "join sep (x # y # ys) = x @ sep @ join sep (y # ys)"

definition strip :: "string \<Rightarrow> string" where
  \<comment> \<open>\<open>s.strip()\<close>\<close>
  "strip s = rev (dropWhile is_space (rev (dropWhile is_space s)))"

definition digit_char :: "nat \<Rightarrow> char" where
  "digit_char d = char_of (48 + d)"

function str_nat :: "nat \<Rightarrow> string" where
  "str_nat n = (if n < 10 then [digit_char n] else str_nat (n div 10) @ [digit_char (n mod 10)])"
  by pat_completeness auto
termination
  by (relation "measure id") auto

declare str_nat.simps [simp del]

definition str_int :: "int \<Rightarrow> string" where
  \<comment> \<open>\<open>str(i)\<close> for a Python int\<close>
  "str_int i = (if i < 0 then CHR ''-'' # str_nat (nat (- i)) else str_nat (nat i))"


definition slice_to :: "'a list \<Rightarrow> int \<Rightarrow> 'a list" where
  \<comment> \<open>\<open>xs[:j]\<close> for any Python int \<open>j\<close>: a negative \<open>j\<close> counts from the end.\<close>
  "slice_to xs j = (if j < 0 then take (nat (int (length xs) + j)) xs else take (nat j) xs)"


section \<open>OCRExtractor.is_image_based_pdf\<close>

definition clean_text :: "string \<Rightarrow> string" where
  \<comment> \<open>the two assignments to \<open>clean_text\<close>\<close>
  "clean_text doc_text =
     concat (split (replace_char CHR ''-'' (replace_char CHR ''*'' (replace_char CHR ''#'' doc_text))))"

definition is_image_based_pdf :: "string \<Rightarrow> int \<Rightarrow> bool" where
  "is_image_based_pdf doc_text threshold =
     (let char_count = int (length (clean_text doc_text)) in char_count < threshold)"

definition default_threshold :: int where
  "default_threshold = 500"

definition stripped :: "char \<Rightarrow> bool" where
  \<comment> \<open>the characters the normalisation removes\<close>
  "stripped c = (c = CHR ''#'' \<or> c = CHR ''*'' \<or> c = CHR ''-'' \<or> is_space c)"


section \<open>ContentSafetyGuard\<close>

record category_item =
  \<comment> \<open>one element of \<open>response.categories_analysis\<close>; \<open>category\<close> is the name as a string\<close>
  category :: string
  severity_of :: int

datatype service_outcome =
  \<comment> \<open>what \<open>self.client.analyze_text(request)\<close> does: it returns a response, or it raises
      the \<open>HttpResponseError\<close> that \<open>check_content\<close> catches, or it raises another
      exception (such as the SDK's \<open>ServiceRequestError\<close> when the connection fails), which
      no \<open>except\<close> clause of \<open>check_content\<close> matches; \<open>str(e)\<close> is the argument.\<close>
  Response "category_item list"
| HttpResponseError string
| OtherError string

datatype exn =
  \<comment> \<open>an exception that leaves a method: the one \<open>analyze_text\<close> raised and
      \<open>check_content\<close> did not catch, or the \<open>AttributeError\<close> of a method call on \<open>None\<close>\<close>
  ServiceError string
| AttributeError

record category_result =
  \<comment> \<open>the dictionary \<open>{"severity": ..., "threshold": ...}\<close>\<close>
  severity :: int
  threshold :: int

record verdict =
  \<comment> \<open>the dictionary \<open>check_content\<close> returns\<close>
  safe :: bool
  blocked :: bool
  reason :: "nat list"
  categories :: "string \<rightharpoonup> category_result"

definition dict_get :: "('k \<rightharpoonup> 'v) \<Rightarrow> 'k \<Rightarrow> 'v \<Rightarrow> 'v" where
  \<comment> \<open>\<open>d.get(k, default)\<close>\<close>
  "dict_get d k dflt = (case d k of None \<Rightarrow> dflt | Some v \<Rightarrow> v)"

definition thresholds_init :: "string \<rightharpoonup> int" where
  \<comment> \<open>\<open>self.thresholds\<close> as \<open>__init__\<close> sets it\<close>
  "thresholds_init = [''hate'' \<mapsto> 2, ''sexual'' \<mapsto> 2, ''violence'' \<mapsto> 2, ''self_harm'' \<mapsto> 2]"

definition effective_threshold :: "(string \<rightharpoonup> int) \<Rightarrow> bool \<Rightarrow> string \<Rightarrow> int" where
  \<comment> \<open>the local \<open>threshold\<close> of the loop body, which \<open>severity\<close> is compared with\<close>
  "effective_threshold thresholds strict_mode category_name =
     (let t = dict_get thresholds category_name 2
      in if strict_mode then max 1 (t - 1) else t)"

definition check_item ::
  "(string \<rightharpoonup> int) \<Rightarrow> bool \<Rightarrow> (string \<rightharpoonup> category_result) \<times> bool \<times> nat list list
     \<Rightarrow> category_item \<Rightarrow> (string \<rightharpoonup> category_result) \<times> bool \<times> nat list list" where
  \<comment> \<open>one pass of the loop over \<open>response.categories_analysis\<close>, on the locals
      \<open>(results, blocked, reasons)\<close>; \<open>sev\<close> and \<open>thr\<close> are the locals \<open>severity\<close> and
      \<open>threshold\<close>.\<close>
  "check_item thresholds strict_mode acc item =
     (case acc of (results, blk, reasons) \<Rightarrow>
        let category_name = lower (category item);
            sev = severity_of item;
            results = results(category_name \<mapsto>
                        \<lparr>severity = sev, threshold = dict_get thresholds category_name 2\<rparr>);
            thr = effective_threshold thresholds strict_mode category_name
        in if sev \<ge> thr
           then (results, True,
                 reasons @ [upper category_name @ codes ('' (severity: '' @ str_int sev @ '')'')])
           else (results, blk, reasons))"

definition check_content ::
  "(string \<rightharpoonup> int) \<Rightarrow> (string \<Rightarrow> service_outcome) \<Rightarrow> string \<Rightarrow> bool \<Rightarrow> exn + verdict" where
  \<comment> \<open>\<open>Inr\<close> the verdict returned, \<open>Inl\<close> the exception that leaves the method\<close>
  "check_content thresholds analyze_text text strict_mode =
     (case analyze_text text of
        Response categories_analysis \<Rightarrow>
          (case foldl (check_item thresholds strict_mode) (Map.empty, False, []) categories_analysis of
             (results, blk, reasons) \<Rightarrow>
               Inr \<lparr>safe = \<not> blk, blocked = blk,
                    reason = (if reasons \<noteq> [] then join (codes '', '') reasons else codes ''Safe''),
                    categories = results\<rparr>)
      | HttpResponseError e \<Rightarrow>
          Inr \<lparr>safe = False, blocked = True, reason = codes (''Error: '' @ e),
               categories = Map.empty\<rparr>
      | OtherError e \<Rightarrow> Inl (ServiceError e))"

definition blocks :: "exn + verdict \<Rightarrow> bool" where
  \<comment> \<open>the check returned a verdict, and the verdict is blocked\<close>
  "blocks r = (case r of Inr v \<Rightarrow> blocked v | Inl e \<Rightarrow> False)"

record jailbreak_result =
  is_jailbreak :: bool
  confidence :: string
  patterns :: "string list"

definition jailbreak_patterns :: "string list" where
  "jailbreak_patterns =
     [''ignore previous instructions'', ''ignore all previous'', ''forget everything'',
      ''you are now'', ''pretend you are'', ''act as if'', ''abaikan instruksi sebelumnya'',
      ''lupakan semua'', ''kamu sekarang adalah'', ''berpura-pura menjadi'',
      ''anggap kamu adalah'', ''system prompt'', ''override instructions'']"

definition detect_jailbreak :: "string \<Rightarrow> jailbreak_result" where
  "detect_jailbreak text =
     (let text_lower = lower text;
          detected = filter (\<lambda>p. contains text_lower p) jailbreak_patterns
      in \<lparr>is_jailbreak = length detected > 0,
          confidence = (if length detected > 0 then ''high'' else ''low''),
          patterns = detected\<rparr>)"


section \<open>Indexable documents\<close>

datatype meta_value = Str string | Num int

record document =
  \<comment> \<open>langchain's \<open>Document\<close>; the metadata dictionary in the order its keys are written\<close>
  page_content :: string
  metadata :: "(string \<times> meta_value) list"

definition nl :: string where
  \<comment> \<open>the newline character\<close>
  "nl = [CHR 0x0A]"


section \<open>OCR chunks\<close>










section \<open>ImageAnnotator\<close>

datatype image_attr =
  \<comment> \<open>\<open>picture_item.image\<close>: \<open>None\<close>; or an object whose \<open>save(tmp.name, format='PNG')\<close> raises,
      with the message of the exception (docling's \<open>ImageRef\<close> has no method \<open>save\<close>, so the
      call is an \<open>AttributeError\<close>); or an object whose \<open>save\<close> writes the file\<close>
  NoImage
| SaveRaises string
| Saved

record picture_item =
  \<comment> \<open>what the annotator reads of a docling \<open>PictureItem\<close>: \<open>caption_text(doc)\<close>, the page
      numbers \<open>[p.page_no for p in prov]\<close>, \<open>label\<close>, \<open>self_ref\<close>, the attribute \<open>image\<close>, and
      whether \<open>get_image(doc)\<close> returns an image\<close>
  pic_caption_text :: string
  pic_prov :: "int list"
  pic_label :: string
  pic_self_ref :: string
  pic_image :: image_attr
  pic_get_image :: bool

datatype doc_item =
  \<comment> \<open>an item of \<open>doc.iterate_items()\<close>: a picture, or another item with its page numbers and
      its \<open>text\<close> attribute, if it has one\<close>
  PictureItem picture_item
| OtherItem "int list" "string option"

datatype page_ref = PageNo int | Unknown

datatype vlm_prompt =
  \<comment> \<open>the two prompt templates of \<open>describe_image_with_vlm\<close>, by their parameters: the
      caption and the context excerpt; the first is sent with the image file\<close>
  ImagePrompt string string
| CaptionPrompt string string

record image_info =
  index :: nat
  caption :: string
  page :: page_ref
  label :: string
  self_ref :: string

record annotation =
  \<comment> \<open>the annotation dictionary; \<open>context_200\<close> is its key \<open>context\<close>\<close>
  image_info :: image_info
  context_200 :: string
  enriched_description :: string
  flagged :: bool
  annotation_text :: string

definition str_page :: "page_ref \<Rightarrow> string" where
  \<comment> \<open>\<open>str(page)\<close>\<close>
  "str_page p = (case p of PageNo n \<Rightarrow> str_int n | Unknown \<Rightarrow> ''Unknown'')"

definition item_prov :: "doc_item \<Rightarrow> int list" where
  "item_prov item = (case item of PictureItem p \<Rightarrow> pic_prov p | OtherItem pr t \<Rightarrow> pr)"

definition item_text :: "doc_item \<Rightarrow> string option" where
  \<comment> \<open>a \<open>PictureItem\<close> has no \<open>text\<close> attribute\<close>
  "item_text item = (case item of PictureItem p \<Rightarrow> None | OtherItem pr t \<Rightarrow> t)"

definition get_image_context :: "doc_item list \<Rightarrow> picture_item \<Rightarrow> nat \<Rightarrow> string" where
  \<comment> \<open>\<open>_get_image_context(doc, picture, window)\<close>\<close>
  "get_image_context doc picture window =
     (case pic_prov picture of
        [] \<Rightarrow> []
      | page_num # _ \<Rightarrow>
          let page_text =
                concat (map (\<lambda>item.
                    case item_prov item of
                      [] \<Rightarrow> []
                    | p # _ \<Rightarrow>
                        if p = page_num
                        then (case item_text item of
                                None \<Rightarrow> []
                              | Some t \<Rightarrow> if t \<noteq> [] then [strip t] else [])
                        else []) doc);
              context = join '' '' page_text
          in if length context > window then take window context else context)"

definition describe_image_with_vlm ::
  "(vlm_prompt \<Rightarrow> string + string) \<Rightarrow> picture_item \<Rightarrow> string \<Rightarrow> string" where
  \<comment> \<open>\<open>vision_llm\<close> is \<open>self.vision_llm.invoke\<close>: \<open>Inr\<close> its response, \<open>Inl\<close> the message of the
      exception it raises. Every exception inside the \<open>try\<close> (of \<open>image.save\<close> or of the model)
      ends in the \<open>except Exception\<close>, which returns the fallback text. An image file
      exists when \<open>image\<close> was saved, or when \<open>image\<close> is \<open>None\<close> and \<open>get_image(doc)\<close> gives one.\<close>
  "describe_image_with_vlm vision_llm picture_item context =
     (let caption = pic_caption_text picture_item;
          fallback = (\<lambda>e. ''[Figure: '' @ caption @ ''] - VLM analysis error: '' @ take 100 e);
          with_image =
            (case vision_llm (ImagePrompt caption
                       (if context \<noteq> [] then take 500 context
                        else ''Technical document about document processing'')) of
               Inr response \<Rightarrow> strip response
             | Inl e \<Rightarrow> fallback e);
          without_image =
            (case vision_llm (CaptionPrompt caption (take 300 context)) of
               Inr response \<Rightarrow> ''[Inferred from caption] '' @ strip response
             | Inl e \<Rightarrow> fallback e)
      in case pic_image picture_item of
           SaveRaises e \<Rightarrow> fallback e
         | Saved \<Rightarrow> with_image
         | NoImage \<Rightarrow> if pic_get_image picture_item then with_image else without_image)"

definition pictures_of :: "doc_item list \<Rightarrow> picture_item list" where
  \<comment> \<open>the list \<open>pictures\<close>: the \<open>PictureItem\<close>s of the document, in document order\<close>
  "pictures_of doc = concat (map (\<lambda>item. case item of PictureItem p \<Rightarrow> [p] | OtherItem pr t \<Rightarrow> []) doc)"

definition annotate_picture ::
  "(vlm_prompt \<Rightarrow> string + string) \<Rightarrow> doc_item list \<Rightarrow> nat \<times> picture_item \<Rightarrow> annotation" where
  \<comment> \<open>the body of the loop \<open>for idx, picture in enumerate(pictures)\<close>; \<open>cap\<close>, \<open>pg\<close>, \<open>info\<close>
      and \<open>description\<close> are the locals \<open>caption\<close>, \<open>page\<close>, \<open>image_info\<close> and
      \<open>enriched_description\<close>\<close>
  "annotate_picture vision_llm doc ip =
     (case ip of (idx, picture) \<Rightarrow>
        let cap = pic_caption_text picture;
            pg = (case pic_prov picture of [] \<Rightarrow> Unknown | p # _ \<Rightarrow> PageNo p);
            info = \<lparr>index = idx, caption = cap, page = pg,
                    label = pic_label picture, self_ref = pic_self_ref picture\<rparr>;
            context = get_image_context doc picture 500;
            description = describe_image_with_vlm vision_llm picture context
        in \<lparr>image_info = info,
            context_200 = take 200 context,
            enriched_description = description,
            flagged = True,
            annotation_text = ''[IMAGE '' @ str_nat (idx + 1) @ '' - Page '' @ str_page pg @ ''] ''
                                @ cap @ nl @ nl @ ''VLM Analysis: '' @ description\<rparr>)"

definition annotate_images_in_document ::
  "(vlm_prompt \<Rightarrow> string + string) \<Rightarrow> doc_item list \<Rightarrow> annotation list" where
  \<comment> \<open>the list \<open>self.annotated_images\<close>, emptied at the start, that the method returns\<close>
  "annotate_images_in_document vision_llm doc =
     (let pictures = pictures_of doc
      in map (annotate_picture vision_llm doc) (zip [0..<length pictures] pictures))"

definition merge_annotations_into_text :: "string \<Rightarrow> annotation list \<Rightarrow> string" where
  "merge_annotations_into_text t annotations =
     foldl (\<lambda>enriched_text a. enriched_text @ nl @ nl @ annotation_text a @ nl) t annotations"


section \<open>SecureChatbotRAGWithImages: re-ranking\<close>

definition sort_key_reverse :: "('a \<Rightarrow> 'k::linorder) \<Rightarrow> 'a list \<Rightarrow> 'a list" where
  \<comment> \<open>\<open>xs.sort(key=f, reverse=True)\<close>: the list is reversed, sorted by the stable ascending
      sort, and reversed again, which is how \<open>list.sort\<close> keeps equal keys in their order.\<close>
  "sort_key_reverse f xs = rev (sort_key f (rev xs))"

definition doc_score_pairs ::
  "((string \<times> string) list \<Rightarrow> real list) \<Rightarrow> string \<Rightarrow> document list \<Rightarrow> (document \<times> real) list" where
  \<comment> \<open>the local \<open>doc_score_pairs\<close> before it is sorted: each retrieved document with the
      score of its (query, content) pair. \<open>predict\<close> is \<open>self.reranker.predict\<close>; a score is a
      number (no NaN).\<close>
  "doc_score_pairs predict query documents =
     (let pairs = map (\<lambda>doc. (query, page_content doc)) documents;
          scores = predict pairs
      in zip documents scores)"

definition rerank_results ::
  "((string \<times> string) list \<Rightarrow> real list) \<Rightarrow> string \<Rightarrow> document list \<Rightarrow> int
     \<Rightarrow> (document \<times> real) list" where
  "rerank_results predict query documents top_k =
     (if documents = [] then []
      else slice_to (sort_key_reverse snd (doc_score_pairs predict query documents)) top_k)"


section \<open>SecureChatbotRAGWithImages: stream\_response\<close>

datatype status_msg =
  \<comment> \<open>the contents of the \<open>status\<close> events, in the order of the source; the two counts are
      \<open>len(image_docs)\<close> and \<open>len(ocr_docs)\<close>\<close>
  CheckingInput | Searching | Sorting | ImagesFound nat | OcrChunksFound nat
| Generating | Validating

datatype error_msg =
  \<comment> \<open>the contents of the \<open>error\<close> events: the jailbreak message with the matched patterns,
      the two block messages with the verdict's reason, and the message that the session
      is ended\<close>
  JailbreakDetected "string list"
| InputBlocked "nat list"
| SessionTerminated
| OutputBlocked "nat list"

datatype event =
  \<comment> \<open>a yielded dictionary \<open>{"type": ..., "content": ...}\<close>\<close>
  Status status_msg
| Error error_msg
| Chunk string
| Complete

datatype llm_prompt =
  \<comment> \<open>\<open>self.prompt.format(context=..., question=..., chat_history=...)\<close>, by its parameters\<close>
  Prompt string string string

datatype call =
  \<comment> \<open>a call to a collaborator: the content-safety check (text, strict mode), the vector
      store's \<open>similarity_search\<close>, the re-ranker's \<open>predict\<close>, the language model's \<open>stream\<close>\<close>
  CheckContent string bool
| SimilaritySearch string int
| RerankerPredict "(string \<times> string) list"
| LlmStream llm_prompt

record chatbot =
  \<comment> \<open>the fields of the chatbot object that a query reads or writes\<close>
  blocked_count :: int
  max_blocked :: int
  guard_thresholds :: "string \<rightharpoonup> int"

record services =
  \<comment> \<open>the collaborators: \<open>guard.client.analyze_text\<close>, \<open>vectorstore.similarity_search\<close>
      (\<open>vectorstore\<close> is \<open>None\<close> until a document is processed), \<open>reranker.predict\<close>,
      \<open>llm.stream\<close> (the increments it produces)\<close>
  client :: "string \<Rightarrow> service_outcome"
  vectorstore :: "(string \<Rightarrow> int \<Rightarrow> document list) option"
  reranker :: "(string \<times> string) list \<Rightarrow> real list"
  llm :: "llm_prompt \<Rightarrow> string list"

record run =
  \<comment> \<open>a call of \<open>stream_response\<close> consumed to its end: the events yielded, the calls made
      to the collaborators, the exception that ended it (if one did), the chatbot after it\<close>
  events :: "event list"
  calls :: "call list"
  raised :: "exn option"
  chatbot_after :: chatbot

definition chatbot_init :: chatbot where
  \<comment> \<open>\<open>__init__\<close>\<close>
  "chatbot_init = \<lparr>blocked_count = 0, max_blocked = 3, guard_thresholds = thresholds_init\<rparr>"

definition reset_chat :: "chatbot \<Rightarrow> chatbot" where
  \<comment> \<open>the Reset Chat button of \<open>main\<close>\<close>
  "reset_chat self = self\<lparr>blocked_count := 0\<rparr>"

definition doc_type :: "document \<Rightarrow> meta_value option" where
  \<comment> \<open>\<open>doc.metadata.get("type")\<close>\<close>
  "doc_type doc = map_of (metadata doc) ''type''"

definition answer :: "services \<Rightarrow> chatbot \<Rightarrow> string \<Rightarrow> int \<Rightarrow> int \<Rightarrow> string \<Rightarrow> run" where
  \<comment> \<open>steps 3 to 6 of \<open>stream_response\<close>; \<open>yielded\<close> and \<open>called\<close> are the events and the
      calls up to the output check\<close>
  "answer S self question k top_k_rerank chat_history =
     (case vectorstore S of
        None \<Rightarrow>
          \<lparr>events = [Status Searching], calls = [], raised = Some AttributeError, chatbot_after = self\<rparr>
      | Some similarity_search \<Rightarrow>
          let initial_results = similarity_search question k;
              reranked_results = rerank_results (reranker S) question initial_results top_k_rerank;
              top_docs = map fst reranked_results;
              image_docs = filter (\<lambda>doc. doc_type doc = Some (Str ''image_annotation'')) top_docs;
              ocr_docs = filter (\<lambda>doc. doc_type doc = Some (Str ''ocr_text'')) top_docs;
              context = join (nl @ nl) (map page_content top_docs);
              prompt_text = Prompt context question
                              (if chat_history \<noteq> [] then chat_history
                               else ''No previous conversation.'');
              chunks = llm S prompt_text;
              full_response = concat chunks;
              yielded = [Status Searching, Status Sorting]
                     @ (if image_docs \<noteq> [] then [Status (ImagesFound (length image_docs))] else [])
                     @ (if ocr_docs \<noteq> [] then [Status (OcrChunksFound (length ocr_docs))] else [])
                     @ [Status Generating]
                     @ map Chunk chunks
                     @ [Status Validating];
              called = [SimilaritySearch question k]
                     @ (if initial_results = [] then []
                        else [RerankerPredict (map (\<lambda>doc. (question, page_content doc))
                                                initial_results)])
                     @ [LlmStream prompt_text, CheckContent full_response True]
          in case check_content (guard_thresholds self) (client S) full_response True of
               Inl e \<Rightarrow>
                 \<lparr>events = yielded, calls = called, raised = Some e, chatbot_after = self\<rparr>
             | Inr output_check \<Rightarrow>
                 \<lparr>events = yielded
                            @ [if blocked output_check
                               then Error (OutputBlocked (reason output_check)) else Complete],
                  calls = called,
                  raised = None,
                  chatbot_after = self\<rparr>)"

definition stream_response ::
  "services \<Rightarrow> chatbot \<Rightarrow> string \<Rightarrow> int \<Rightarrow> int \<Rightarrow> string \<Rightarrow> run" where
  "stream_response S self question k top_k_rerank chat_history =
     (let jailbreak_check = detect_jailbreak question
      in if is_jailbreak jailbreak_check
         then \<lparr>events = [Error (JailbreakDetected (patterns jailbreak_check))],
               calls = [],
               raised = None,
               chatbot_after = self\<lparr>blocked_count := blocked_count self + 1\<rparr>\<rparr>
         else case check_content (guard_thresholds self) (client S) question False of
                Inl e \<Rightarrow>
                  \<lparr>events = [Status CheckingInput],
                   calls = [CheckContent question False],
                   raised = Some e,
                   chatbot_after = self\<rparr>
              | Inr safety_check \<Rightarrow>
                  if blocked safety_check
                  then (let self1 = self\<lparr>blocked_count := blocked_count self + 1\<rparr>
                        in \<lparr>events = [Status CheckingInput,
                                       Error (InputBlocked (reason safety_check))]
                                      @ (if blocked_count self1 \<ge> max_blocked self1
                                         then [Error SessionTerminated] else []),
                            calls = [CheckContent question False],
                            raised = None,
                            chatbot_after = self1\<rparr>)
                  else (let r = answer S self question k top_k_rerank chat_history
                        in r\<lparr>events := Status CheckingInput # events r,
                             calls := CheckContent question False # calls r\<rparr>))"


section \<open>Example collaborators\<close>

text \<open>Concrete collaborators and inputs, on which the theorems below are instantiated.\<close>

definition example_doc :: "string \<Rightarrow> string \<Rightarrow> document" where
  "example_doc content ty =
     \<lparr>page_content = content, metadata = [(''source'', Str ''doc.pdf''), (''type'', Str ty)]\<rparr>"

definition example_client :: "string \<Rightarrow> service_outcome" where
  \<comment> \<open>a content-safety service that scores a text with the word \<open>hateful\<close> at severity 4\<close>
  "example_client t =
     Response [\<lparr>category = ''Hate'', severity_of = (if contains (lower t) ''hateful'' then 4 else 0)\<rparr>]"

definition example_services :: services where
  "example_services =
     \<lparr>client = example_client,
      vectorstore = Some (\<lambda>q k. [example_doc ''Figure 1 shows the pipeline.'' ''image_annotation'',
                                 example_doc ''The pipeline has three stages.'' ''text'']),
      reranker = (\<lambda>pairs. map (\<lambda>p. 1) pairs),
      llm = (\<lambda>p. [''The pipeline '', ''has three stages.''])\<rparr>"

definition example_picture :: "string \<Rightarrow> int list \<Rightarrow> picture_item" where
  "example_picture cap pages =
     \<lparr>pic_caption_text = cap, pic_prov = pages, pic_label = ''picture'', pic_self_ref = ''#/pictures'',
      pic_image = SaveRaises ''save'', pic_get_image = True\<rparr>"


section \<open>Proofs\<close>

lemma concat_split_from: "concat (split_from cur s) = cur @ filter (\<lambda>c. \<not> is_space c) s"
  by (induction s arbitrary: cur) auto

lemma concat_split: "concat (split s) = filter (\<lambda>c. \<not> is_space c) s"
  by (simp add: split_def concat_split_from)

lemma clean_text_filter: "clean_text s = filter (\<lambda>c. \<not> stripped c) s"
  by (auto simp: clean_text_def concat_split replace_char_def stripped_def intro: filter_cong)


subsection \<open>The classifier\<close>

text \<open>
  C6, as the code has it: \<open>is_image_based_pdf\<close> removes \<open>#\<close>, \<open>*\<close>, \<open>-\<close> and every whitespace
  character, counts what is left, and answers image-based exactly when the count is below
  the threshold. A text of removed characters only has count 0, so it is image-based
  for every positive threshold, the default 500 among them (and for no other threshold).
\<close>

theorem is_image_based_pdf_count:
  "is_image_based_pdf doc_text limit
     = (int (length (filter (\<lambda>c. \<not> stripped c) doc_text)) < limit)
   \<and> ((\<forall>c \<in> set doc_text. is_space c) \<longrightarrow> is_image_based_pdf doc_text limit = (0 < limit))
   \<and> ((\<forall>c \<in> set doc_text. is_space c) \<longrightarrow> is_image_based_pdf doc_text default_threshold)"
proof -
  have count: "is_image_based_pdf doc_text l
                 = (int (length (filter (\<lambda>c. \<not> stripped c) doc_text)) < l)" for l
    by (simp add: is_image_based_pdf_def clean_text_filter)
  have blank: "filter (\<lambda>c. \<not> stripped c) doc_text = []" if "\<forall>c \<in> set doc_text. is_space c"
    using that by (auto simp: filter_empty_conv stripped_def)
  show ?thesis
    using count blank by (simp add: default_threshold_def)
qed

theorem is_image_based_pdf_count_witness:
  "is_space CHR '' '' \<and> is_space (CHR 0x0A)
   \<and> is_image_based_pdf [CHR '' '', CHR 0x0A] 500
   \<and> is_image_based_pdf [CHR '' '', CHR 0x0A] default_threshold"
  using is_image_based_pdf_count [of "[CHR '' '', CHR 0x0A]" 500]
  by (simp add: is_space_def)

theorem is_image_based_pdf_blank_counterexample:
  "clean_text '' '' = [] \<and> \<not> is_image_based_pdf '' '' 0 \<and> \<not> is_image_based_pdf [] 0"
  by (simp add: is_image_based_pdf_def clean_text_def replace_char_def split_def is_space_def)


subsection \<open>The safety gate fails closed\<close>

text \<open>
  C2, as the code has it: when the call to the content-safety service fails with an
  \<open>HttpResponseError\<close>, \<open>check_content\<close> returns the blocked verdict whose reason is the error
  message (after \<open>Error: \<close>); when the call raises any other exception, the exception leaves
  \<open>check_content\<close> and no verdict is returned; and a verdict that says safe always comes from
  a response of the service, never from a failed call.
\<close>

theorem check_content_fail_closed:
  "(analyze_text text = HttpResponseError e \<longrightarrow>
      check_content thresholds analyze_text text strict_mode
        = Inr \<lparr>safe = False, blocked = True, reason = codes (''Error: '' @ e),
               categories = Map.empty\<rparr>)
   \<and> (analyze_text text = OtherError e \<longrightarrow>
        check_content thresholds analyze_text text strict_mode = Inl (ServiceError e))
   \<and> (\<forall>v. check_content thresholds analyze_text text strict_mode = Inr v \<and> safe v \<longrightarrow>
        (\<exists>categories_analysis. analyze_text text = Response categories_analysis))"
  by (cases "analyze_text text") (auto simp: check_content_def split: prod.splits)

theorem check_content_fail_closed_witness:
  "check_content thresholds_init (\<lambda>t. HttpResponseError ''timeout'') ''hello'' False
     = Inr \<lparr>safe = False, blocked = True, reason = codes ''Error: timeout'',
            categories = Map.empty\<rparr>
   \<and> check_content thresholds_init (\<lambda>t. OtherError ''connection refused'') ''hello'' False
       = Inl (ServiceError ''connection refused'')
   \<and> (\<exists>v. check_content thresholds_init (\<lambda>t. Response []) ''hello'' False = Inr v \<and> safe v)
   \<and> (\<exists>categories_analysis. (\<lambda>t. Response []) ''hello'' = Response categories_analysis)"
  using check_content_fail_closed
          [of "\<lambda>t. HttpResponseError ''timeout''" "''hello''" "''timeout''" thresholds_init False]
        check_content_fail_closed
          [of "\<lambda>t. OtherError ''connection refused''" "''hello''" "''connection refused''"
              thresholds_init False]
        check_content_fail_closed
          [of "\<lambda>t. Response []" "''hello''" "''timeout''" thresholds_init False]
  by (simp add: check_content_def)

theorem check_content_raises_counterexample:
  "check_content thresholds_init (\<lambda>t. OtherError ''connection refused'') ''hello'' False
     = Inl (ServiceError ''connection refused'')
   \<and> check_content thresholds_init (\<lambda>t. OtherError ''connection refused'') ''hello'' False
       \<noteq> Inr \<lparr>safe = False, blocked = True, reason = codes ''Error: connection refused'',
              categories = Map.empty\<rparr>"
  by (simp add: check_content_def)


subsection \<open>Splitting of long OCR pages\<close>


















subsection \<open>Re-ranking\<close>

lemma sort_key_reverse_stable:
  "filter (\<lambda>y. f y = k) (sort_key_reverse f xs) = filter (\<lambda>y. f y = k) xs"
  by (simp add: sort_key_reverse_def rev_filter [symmetric] sort_key_stable)

lemma mset_sort_key_reverse: "mset (sort_key_reverse f xs) = mset xs"
  by (simp add: sort_key_reverse_def)

lemma sort_key_reverse_descending:
  "sorted_wrt (\<lambda>a b. f b \<le> f a) (sort_key_reverse f xs)"
proof -
  have "sorted (map f (sort_key f (rev xs)))" by (rule sorted_sort_key)
  then have "sorted_wrt (\<lambda>a b. f a \<le> f b) (sort_key f (rev xs))"
    by (simp add: sorted_wrt_map)
  then show ?thesis
    by (simp add: sort_key_reverse_def sorted_wrt_rev)
qed

lemma slice_to_take: "slice_to xs j = take (if j < 0 then nat (int (length xs) + j) else nat j) xs"
  by (simp add: slice_to_def)

lemma prefix_filter_take: "prefix (filter P (take n xs)) (filter P xs)"
proof -
  have "filter P xs = filter P (take n xs) @ filter P (drop n xs)"
    by (metis append_take_drop_id filter_append)
  then show ?thesis by (simp add: prefix_def)
qed

lemma descending_take_drop:
  assumes "sorted_wrt (\<lambda>a b. f b \<le> f a) xs" "a \<in> set (take n xs)" "b \<in> set (drop n xs)"
  shows "f b \<le> f a"
proof -
  have "sorted_wrt (\<lambda>a b. f b \<le> f a) (take n xs @ drop n xs)"
    using assms(1) by simp
  then show ?thesis
    using assms(2,3) unfolding sorted_wrt_append by blast
qed

lemma rerank_results_take:
  "\<exists>n. rerank_results predict query documents top_k
         = take n (sort_key_reverse snd (doc_score_pairs predict query documents))"
proof (cases "documents = []")
  case True
  then have "rerank_results predict query documents top_k = take 0 (sort_key_reverse snd (doc_score_pairs predict query documents))"
    by (simp add: rerank_results_def)
  then show ?thesis by blast
next
  case False
  then show ?thesis
    unfolding rerank_results_def slice_to_take by auto
qed

text \<open>
  C7: \<open>rerank_results\<close> pairs every retrieved document with the score of its
  (query, content) pair and returns a leading segment of these pairs sorted by descending
  score: the result is descending; for each score \<open>s\<close>, the results scored \<open>s\<close> are, in the
  same order, the first of the input pairs scored \<open>s\<close> (equal scores keep their retrieval
  order); the pairs left out score no higher than any pair kept; and for \<open>top_k \<ge> 0\<close>
  exactly \<open>top_k\<close> pairs are kept, or all of them if there are fewer.
\<close>

theorem rerank_results_sorted_stable:
  "sorted_wrt (\<lambda>a b. snd b \<le> snd a) (rerank_results predict query documents top_k)
   \<and> (\<forall>s. prefix (filter (\<lambda>p. snd p = s) (rerank_results predict query documents top_k))
                   (filter (\<lambda>p. snd p = s) (doc_score_pairs predict query documents)))
   \<and> (\<exists>rest. mset (rerank_results predict query documents top_k @ rest)
                  = mset (doc_score_pairs predict query documents)
             \<and> (\<forall>a \<in> set (rerank_results predict query documents top_k).
                    \<forall>b \<in> set rest. snd b \<le> snd a))
   \<and> (0 \<le> top_k \<longrightarrow>
         length (rerank_results predict query documents top_k)
           = min (nat top_k) (length (doc_score_pairs predict query documents)))
   \<and> (length (predict (map (\<lambda>doc. (query, page_content doc)) documents)) = length documents \<longrightarrow>
         map fst (doc_score_pairs predict query documents) = documents
       \<and> map snd (doc_score_pairs predict query documents)
           = predict (map (\<lambda>doc. (query, page_content doc)) documents))"
proof -
  let ?scored = "doc_score_pairs predict query documents"
  let ?sorted = "sort_key_reverse snd ?scored"
  obtain n where n: "rerank_results predict query documents top_k = take n ?sorted"
    using rerank_results_take by blast
  have desc: "sorted_wrt (\<lambda>a b. snd b \<le> snd a) ?sorted"
    by (rule sort_key_reverse_descending)
  have "sorted_wrt (\<lambda>a b. snd b \<le> snd a) (take n ?sorted @ drop n ?sorted)"
    using desc by simp
  then have 1: "sorted_wrt (\<lambda>a b. snd b \<le> snd a) (take n ?sorted)"
    unfolding sorted_wrt_append by blast
  have 2: "prefix (filter (\<lambda>p. snd p = s) (take n ?sorted)) (filter (\<lambda>p. snd p = s) ?scored)" for s
    using prefix_filter_take [of "\<lambda>p. snd p = s" n ?sorted]
    by (simp add: sort_key_reverse_stable)
  have "mset (take n ?sorted @ drop n ?sorted) = mset ?scored"
    by (simp add: mset_sort_key_reverse)
  moreover have "\<forall>a \<in> set (take n ?sorted). \<forall>b \<in> set (drop n ?sorted). snd b \<le> snd a"
    using descending_take_drop [OF desc] by blast
  ultimately have 3: "\<exists>rest. mset (take n ?sorted @ rest) = mset ?scored
                     \<and> (\<forall>a \<in> set (take n ?sorted). \<forall>b \<in> set rest. snd b \<le> snd a)"
    by blast
  have 4: "length (rerank_results predict query documents top_k) = min (nat top_k) (length ?scored)"
    if "0 \<le> top_k"
  proof (cases "documents = []")
    case True
    then show ?thesis by (simp add: rerank_results_def doc_score_pairs_def)
  next
    case False
    have "length ?sorted = length ?scored"
      by (metis mset_sort_key_reverse size_mset)
    then show ?thesis
      using False that by (simp add: rerank_results_def slice_to_def min.commute)
  qed
  have 5: "map fst ?scored = documents
           \<and> map snd ?scored = predict (map (\<lambda>doc. (query, page_content doc)) documents)"
    if "length (predict (map (\<lambda>doc. (query, page_content doc)) documents)) = length documents"
    using that by (simp add: doc_score_pairs_def)
  show ?thesis
    unfolding n using 1 2 3 4 [unfolded n] 5 by blast
qed

theorem rerank_results_sorted_stable_witness:
  "(0::int) \<le> 5
   \<and> length ((\<lambda>pairs. [1, 2, 1 :: real]) (map (\<lambda>doc. (''q'', page_content doc))
        [example_doc ''a'' ''text'', example_doc ''b'' ''text'', example_doc ''c'' ''ocr_text'']))
       = length [example_doc ''a'' ''text'', example_doc ''b'' ''text'', example_doc ''c'' ''ocr_text'']
   \<and> rerank_results (\<lambda>pairs. [1, 2, 1]) ''q''
        [example_doc ''a'' ''text'', example_doc ''b'' ''text'', example_doc ''c'' ''ocr_text''] 5
       = [(example_doc ''b'' ''text'', 2), (example_doc ''a'' ''text'', 1),
          (example_doc ''c'' ''ocr_text'', 1)]
   \<and> length (rerank_results (\<lambda>pairs. [1, 2, 1]) ''q''
        [example_doc ''a'' ''text'', example_doc ''b'' ''text'', example_doc ''c'' ''ocr_text''] 5)
       = min (nat 5) (length (doc_score_pairs (\<lambda>pairs. [1, 2, 1]) ''q''
        [example_doc ''a'' ''text'', example_doc ''b'' ''text'', example_doc ''c'' ''ocr_text'']))
   \<and> map snd (doc_score_pairs (\<lambda>pairs. [1, 2, 1]) ''q''
        [example_doc ''a'' ''text'', example_doc ''b'' ''text'', example_doc ''c'' ''ocr_text''])
       = [1, 2, 1]
   \<and> sorted_wrt (\<lambda>a b. snd b \<le> snd a) (rerank_results (\<lambda>pairs. [1, 2, 1]) ''q''
        [example_doc ''a'' ''text'', example_doc ''b'' ''text'', example_doc ''c'' ''ocr_text''] 5)"
proof -
  have e: "rerank_results (\<lambda>pairs. [1, 2, 1]) ''q''
        [example_doc ''a'' ''text'', example_doc ''b'' ''text'', example_doc ''c'' ''ocr_text''] 5
       = [(example_doc ''b'' ''text'', 2), (example_doc ''a'' ''text'', 1),
          (example_doc ''c'' ''ocr_text'', 1)]"
    by (simp add: rerank_results_def doc_score_pairs_def sort_key_reverse_def slice_to_def
          example_doc_def)
  from rerank_results_sorted_stable
         [where predict = "\<lambda>pairs. [1, 2, 1]" and query = "''q''" and top_k = 5
            and documents = "[example_doc ''a'' ''text'', example_doc ''b'' ''text'',
                              example_doc ''c'' ''ocr_text'']"]
  show ?thesis using e by simp
qed


subsection \<open>The query orchestrator\<close>

lemma stream_response_jailbreak:
  assumes "is_jailbreak (detect_jailbreak question)"
  shows "stream_response S self question k top_k_rerank chat_history
           = \<lparr>events = [Error (JailbreakDetected (patterns (detect_jailbreak question)))],
              calls = [],
              raised = None,
              chatbot_after = self\<lparr>blocked_count := blocked_count self + 1\<rparr>\<rparr>"
  using assms by (simp add: stream_response_def Let_def)

lemma stream_response_raises:
  assumes "\<not> is_jailbreak (detect_jailbreak question)"
    and "check_content (guard_thresholds self) (client S) question False = Inl e"
  shows "stream_response S self question k top_k_rerank chat_history
           = \<lparr>events = [Status CheckingInput], calls = [CheckContent question False],
              raised = Some e, chatbot_after = self\<rparr>"
  using assms by (simp add: stream_response_def Let_def)

lemma stream_response_input_blocked:
  assumes "\<not> is_jailbreak (detect_jailbreak question)"
    and "check_content (guard_thresholds self) (client S) question False = Inr v"
    and "blocked v"
  shows "stream_response S self question k top_k_rerank chat_history
           = \<lparr>events = [Status CheckingInput, Error (InputBlocked (reason v))]
                       @ (if max_blocked self \<le> blocked_count self + 1
                          then [Error SessionTerminated] else []),
              calls = [CheckContent question False],
              raised = None,
              chatbot_after = self\<lparr>blocked_count := blocked_count self + 1\<rparr>\<rparr>"
  using assms by (simp add: stream_response_def Let_def)

lemma stream_response_answers:
  assumes "\<not> is_jailbreak (detect_jailbreak question)"
    and "check_content (guard_thresholds self) (client S) question False = Inr v"
    and "\<not> blocked v"
  shows "stream_response S self question k top_k_rerank chat_history
           = (answer S self question k top_k_rerank chat_history)
               \<lparr>events := Status CheckingInput
                            # events (answer S self question k top_k_rerank chat_history),
                calls := CheckContent question False
                            # calls (answer S self question k top_k_rerank chat_history)\<rparr>"
  using assms by (simp add: stream_response_def Let_def)

lemma chatbot_after_answer:
  "chatbot_after (answer S self question k top_k_rerank chat_history) = self"
  by (simp add: answer_def Let_def split: option.splits sum.splits)

lemma answer_not_terminated:
  "Error SessionTerminated \<notin> set (events (answer S self question k top_k_rerank chat_history))"
  by (simp add: answer_def Let_def image_iff split: option.splits sum.splits)

text \<open>
  C3: a question that the jailbreak detector flags yields exactly one event, the error
  event with the matched patterns (of which there is at least one), makes no call to the
  content-safety service, the vector store, the re-ranker or the language model, and adds
  one to the violation counter.
\<close>

theorem jailbreak_short_circuits:
  assumes "is_jailbreak (detect_jailbreak question)"
  shows "stream_response S self question k top_k_rerank chat_history
           = \<lparr>events = [Error (JailbreakDetected (patterns (detect_jailbreak question)))],
              calls = [],
              raised = None,
              chatbot_after = self\<lparr>blocked_count := blocked_count self + 1\<rparr>\<rparr>
         \<and> patterns (detect_jailbreak question) \<noteq> []
         \<and> set (patterns (detect_jailbreak question)) \<subseteq> set jailbreak_patterns"
  using assms by (auto simp: stream_response_def Let_def detect_jailbreak_def)

theorem jailbreak_short_circuits_witness:
  "is_jailbreak (detect_jailbreak ''Please IGNORE previous instructions'')
   \<and> events (stream_response example_services chatbot_init
                ''Please IGNORE previous instructions'' 10 5 [])
       = [Error (JailbreakDetected [''ignore previous instructions''])]
   \<and> calls (stream_response example_services chatbot_init
               ''Please IGNORE previous instructions'' 10 5 []) = []
   \<and> blocked_count (chatbot_after (stream_response example_services chatbot_init
                                      ''Please IGNORE previous instructions'' 10 5 [])) = 1"
proof -
  have h: "is_jailbreak (detect_jailbreak ''Please IGNORE previous instructions'')"
    by code_simp
  have p: "patterns (detect_jailbreak ''Please IGNORE previous instructions'')
             = [''ignore previous instructions'']"
    by code_simp
  from jailbreak_short_circuits
         [OF h, where S = example_services and self = chatbot_init and k = 10
            and top_k_rerank = 5 and chat_history = "[]"]
  show ?thesis using h p by (simp add: chatbot_init_def)
qed

text \<open>
  C10: a query blocked at the jailbreak stage never yields the session-terminated error
  event, whatever the counter has reached; the event is yielded exactly when the question
  passes the jailbreak check, the input content-safety check blocks it, and the incremented
  counter is at or above \<open>max_blocked\<close>.
\<close>

theorem session_terminated_only_after_input_block:
  "(is_jailbreak (detect_jailbreak question) \<longrightarrow>
      Error SessionTerminated \<notin> set (events (stream_response S self question k top_k_rerank chat_history)))
   \<and> (Error SessionTerminated \<in> set (events (stream_response S self question k top_k_rerank chat_history))
        \<longleftrightarrow> \<not> is_jailbreak (detect_jailbreak question)
            \<and> blocks (check_content (guard_thresholds self) (client S) question False)
            \<and> max_blocked self \<le> blocked_count self + 1)"
proof (cases "is_jailbreak (detect_jailbreak question)")
  case True
  then show ?thesis
    by (simp add: stream_response_jailbreak)
next
  case nj: False
  show ?thesis
  proof (cases "check_content (guard_thresholds self) (client S) question False")
    case (Inl e)
    then show ?thesis
      using nj by (simp add: stream_response_raises blocks_def)
  next
    case (Inr v)
    show ?thesis
    proof (cases "blocked v")
      case True
      then show ?thesis
        using nj Inr by (simp add: stream_response_input_blocked blocks_def)
    next
      case False
      then show ?thesis
        using nj Inr answer_not_terminated [of S self question k top_k_rerank chat_history]
        by (simp add: stream_response_answers blocks_def)
    qed
  qed
qed

theorem session_terminated_only_after_input_block_witness:
  "is_jailbreak (detect_jailbreak ''Please IGNORE previous instructions'')
   \<and> max_blocked (chatbot_init\<lparr>blocked_count := 2\<rparr>) \<le> blocked_count (chatbot_init\<lparr>blocked_count := 2\<rparr>) + 1
   \<and> Error SessionTerminated
        \<notin> set (events (stream_response example_services (chatbot_init\<lparr>blocked_count := 2\<rparr>)
                          ''Please IGNORE previous instructions'' 10 5 []))
   \<and> blocked_count (chatbot_after (stream_response example_services (chatbot_init\<lparr>blocked_count := 2\<rparr>)
                                      ''Please IGNORE previous instructions'' 10 5 [])) = 3
   \<and> Error SessionTerminated
        \<in> set (events (stream_response example_services (chatbot_init\<lparr>blocked_count := 2\<rparr>)
                          ''some hateful text'' 10 5 []))"
proof -
  have h: "is_jailbreak (detect_jailbreak ''Please IGNORE previous instructions'')"
    by code_simp
  have c: "blocked_count (chatbot_after (stream_response example_services (chatbot_init\<lparr>blocked_count := 2\<rparr>)
                                      ''Please IGNORE previous instructions'' 10 5 [])) = 3"
    by code_simp
  have t: "Error SessionTerminated
        \<in> set (events (stream_response example_services (chatbot_init\<lparr>blocked_count := 2\<rparr>)
                          ''some hateful text'' 10 5 []))"
    by code_simp
  from session_terminated_only_after_input_block
         [where question = "''Please IGNORE previous instructions''" and S = example_services
            and self = "chatbot_init\<lparr>blocked_count := 2\<rparr>" and k = 10
            and top_k_rerank = 5 and chat_history = "[]"]
  show ?thesis using h c t by (simp add: chatbot_init_def)
qed

text \<open>
  C4: a run adds one to the violation counter exactly when the question is blocked as a
  jailbreak or by the input content-safety check, and nothing otherwise; a run whose
  output check blocks the answer leaves the chatbot, and so the counter, as it was.
\<close>

theorem counter_counts_blocked_inputs:
  "blocked_count (chatbot_after (stream_response S self question k top_k_rerank chat_history))
     = blocked_count self
         + (if is_jailbreak (detect_jailbreak question)
               \<or> blocks (check_content (guard_thresholds self) (client S) question False)
            then 1 else 0)
   \<and> (Error (OutputBlocked r) \<in> set (events (stream_response S self question k top_k_rerank chat_history))
        \<longrightarrow> chatbot_after (stream_response S self question k top_k_rerank chat_history) = self)"
proof (cases "is_jailbreak (detect_jailbreak question)")
  case True
  then show ?thesis
    by (simp add: stream_response_jailbreak)
next
  case nj: False
  show ?thesis
  proof (cases "check_content (guard_thresholds self) (client S) question False")
    case (Inl e)
    then show ?thesis
      using nj by (simp add: stream_response_raises blocks_def)
  next
    case (Inr v)
    show ?thesis
    proof (cases "blocked v")
      case True
      then show ?thesis
        using nj Inr by (simp add: stream_response_input_blocked blocks_def)
    next
      case False
      then show ?thesis
        using nj Inr by (simp add: stream_response_answers blocks_def chatbot_after_answer)
    qed
  qed
qed

theorem counter_counts_blocked_inputs_witness:
  "Error (OutputBlocked (codes ''HATE (severity: 4)''))
     \<in> set (events (stream_response (example_services\<lparr>llm := (\<lambda>p. [''more '', ''hateful text''])\<rparr>)
                       (chatbot_init\<lparr>blocked_count := 2\<rparr>) ''What does Figure 1 show?'' 10 5 []))
   \<and> blocked_count (chatbot_after
          (stream_response (example_services\<lparr>llm := (\<lambda>p. [''more '', ''hateful text''])\<rparr>)
             (chatbot_init\<lparr>blocked_count := 2\<rparr>) ''What does Figure 1 show?'' 10 5 [])) = 2"
proof -
  have e: "Error (OutputBlocked (codes ''HATE (severity: 4)''))
     \<in> set (events (stream_response (example_services\<lparr>llm := (\<lambda>p. [''more '', ''hateful text''])\<rparr>)
                       (chatbot_init\<lparr>blocked_count := 2\<rparr>) ''What does Figure 1 show?'' 10 5 []))"
    by code_simp
  from counter_counts_blocked_inputs
         [where S = "example_services\<lparr>llm := (\<lambda>p. [''more '', ''hateful text''])\<rparr>"
            and self = "chatbot_init\<lparr>blocked_count := 2\<rparr>"
            and question = "''What does Figure 1 show?''" and k = 10 and top_k_rerank = 5
            and chat_history = "[]" and r = "codes ''HATE (severity: 4)''"]
  show ?thesis using e by (simp add: chatbot_init_def)
qed

text \<open>
  C1, at a failing input: three questions blocked by the input content-safety check bring
  the counter to \<open>max_blocked = 3\<close>, and the third run yields the session-terminated event;
  the next question is nevertheless taken through every state (both safety checks,
  retrieval, re-ranking, generation) and ends with a completion event.
\<close>

theorem terminated_session_still_answers:
  "let S = example_services;
       q = ''some hateful text'';
       q4 = ''What does Figure 1 show?'';
       run1 = stream_response S chatbot_init q 10 5 [];
       run2 = stream_response S (chatbot_after run1) q 10 5 [];
       run3 = stream_response S (chatbot_after run2) q 10 5 [];
       run4 = stream_response S (chatbot_after run3) q4 10 5 []
   in events run3 = [Status CheckingInput, Error (InputBlocked (codes ''HATE (severity: 4)'')),
                     Error SessionTerminated]
    \<and> blocked_count (chatbot_after run3) = 3
    \<and> max_blocked (chatbot_after run3) = 3
    \<and> events run4 = [Status CheckingInput, Status Searching, Status Sorting,
                      Status (ImagesFound 1), Status Generating,
                      Chunk ''The pipeline '', Chunk ''has three stages.'',
                      Status Validating, Complete]
    \<and> calls run4 = [CheckContent q4 False, SimilaritySearch q4 10,
                     RerankerPredict [(q4, ''Figure 1 shows the pipeline.''),
                                      (q4, ''The pipeline has three stages.'')],
                     LlmStream (Prompt (''Figure 1 shows the pipeline.'' @ nl @ nl
                                          @ ''The pipeline has three stages.'')
                                  q4 ''No previous conversation.''),
                     CheckContent ''The pipeline has three stages.'' True]
    \<and> blocked_count (chatbot_after run4) = 3"
  by code_simp


subsection \<open>Thresholds recorded in the verdict\<close>

text \<open>
  C9, at a failing input: in strict mode a category of severity 1 is compared with the
  lowered threshold 1 and blocks the text, while the entry recorded for the category
  holds the unlowered threshold 2.
\<close>

theorem strict_threshold_recorded_unlowered:
  "case check_content thresholds_init (\<lambda>t. Response [\<lparr>category = ''Hate'', severity_of = 1\<rparr>])
          ''an answer'' True of
     Inr v \<Rightarrow> blocked v \<and> reason v = codes ''HATE (severity: 1)''
            \<and> categories v ''hate'' = Some \<lparr>severity = 1, threshold = 2\<rparr>
            \<and> effective_threshold thresholds_init True ''hate'' = 1
   | Inl e \<Rightarrow> False"
  by code_simp


subsection \<open>Annotation indices\<close>

lemma annotate_picture_info:
  "index (image_info (annotate_picture vision_llm doc ip)) = fst ip"
  "caption (image_info (annotate_picture vision_llm doc ip)) = pic_caption_text (snd ip)"
  by (cases ip; simp add: annotate_picture_def Let_def)+

lemma length_pictures_of:
  "length (pictures_of doc)
     = length (filter (\<lambda>item. case item of PictureItem p \<Rightarrow> True | OtherItem pr t \<Rightarrow> False) doc)"
  unfolding pictures_of_def by (induction doc) (auto split: doc_item.splits)

text \<open>
  C8: for a document with \<open>N\<close> picture items, \<open>annotate_images_in_document\<close> returns \<open>N\<close>
  annotations whose \<open>index\<close> fields are \<open>0, 1, ..., N - 1\<close> in this order (so they are
  distinct), the annotation of index \<open>i\<close> being that of the \<open>i\<close>-th picture of the document.
\<close>

theorem annotation_indices_dense:
  "length (annotate_images_in_document vision_llm doc)
     = length (filter (\<lambda>item. case item of PictureItem p \<Rightarrow> True | OtherItem pr t \<Rightarrow> False) doc)
   \<and> map (\<lambda>a. index (image_info a)) (annotate_images_in_document vision_llm doc)
       = [0..<length (annotate_images_in_document vision_llm doc)]
   \<and> distinct (map (\<lambda>a. index (image_info a)) (annotate_images_in_document vision_llm doc))
   \<and> map (\<lambda>a. caption (image_info a)) (annotate_images_in_document vision_llm doc)
       = map pic_caption_text (pictures_of doc)"
proof -
  let ?ps = "pictures_of doc"
  let ?anns = "annotate_images_in_document vision_llm doc"
  have anns: "?anns = map (annotate_picture vision_llm doc) (zip [0..<length ?ps] ?ps)"
    by (simp add: annotate_images_in_document_def Let_def)
  have len: "length ?anns = length ?ps"
    by (simp add: anns)
  have "map (\<lambda>a. index (image_info a)) ?anns = map fst (zip [0..<length ?ps] ?ps)"
    by (simp add: anns annotate_picture_info comp_def)
  then have idx: "map (\<lambda>a. index (image_info a)) ?anns = [0..<length ?ps]"
    by simp
  have "map (\<lambda>a. caption (image_info a)) ?anns
          = map (\<lambda>ip. pic_caption_text (snd ip)) (zip [0..<length ?ps] ?ps)"
    by (simp add: anns annotate_picture_info comp_def)
  also have "\<dots> = map pic_caption_text (map snd (zip [0..<length ?ps] ?ps))"
    by (simp only: map_map o_def)
  also have "\<dots> = map pic_caption_text ?ps"
    by simp
  finally have cap: "map (\<lambda>a. caption (image_info a)) ?anns = map pic_caption_text ?ps" .
  show ?thesis
    using len idx cap by (simp add: length_pictures_of)
qed

theorem annotation_indices_dense_witness:
  "map (\<lambda>a. (index (image_info a), caption (image_info a), page (image_info a)))
     (annotate_images_in_document (\<lambda>p. Inr ''a diagram'')
        [OtherItem [1] (Some ''Introduction''), PictureItem (example_picture ''Figure 1'' [1]),
         OtherItem [2] None, PictureItem (example_picture ''Figure 2'' [])])
     = [(0, ''Figure 1'', PageNo 1), (1, ''Figure 2'', Unknown)]
   \<and> length (annotate_images_in_document (\<lambda>p. Inr ''a diagram'')
        [OtherItem [1] (Some ''Introduction''), PictureItem (example_picture ''Figure 1'' [1]),
         OtherItem [2] None, PictureItem (example_picture ''Figure 2'' [])]) = 2"
proof -
  have e: "map (\<lambda>a. (index (image_info a), caption (image_info a), page (image_info a)))
     (annotate_images_in_document (\<lambda>p. Inr ''a diagram'')
        [OtherItem [1] (Some ''Introduction''), PictureItem (example_picture ''Figure 1'' [1]),
         OtherItem [2] None, PictureItem (example_picture ''Figure 2'' [])])
     = [(0, ''Figure 1'', PageNo 1), (1, ''Figure 2'', Unknown)]"
    by code_simp
  from annotation_indices_dense
         [where vision_llm = "\<lambda>p. Inr ''a diagram''"
            and doc = "[OtherItem [1] (Some ''Introduction''), PictureItem (example_picture ''Figure 1'' [1]),
                        OtherItem [2] None, PictureItem (example_picture ''Figure 2'' [])]"]
  show ?thesis using e by simp
qed

end
